theory Spec2Isabelle
  imports Main "HOL-Library.Product_Lexorder"
begin

section \<open>Python values and errors\<close>

text \<open>
  The exceptions the modelled functions can raise. A function that can raise returns
  \<open>py_error + 'a\<close>, with \<open>Inl\<close> carrying the exception.
\<close>

datatype py_error =
  IndexError | KeyError | TypeError | ValueError | AttributeError | FileNotFoundError

section \<open>Severity levels (\<open>__init__.py\<close>, class \<open>Level\<close>)\<close>

text \<open>
  \<open>Level\<close> is an \<open>enum.Enum\<close> with five members, declared in the order
  NOTE, INFO, WARN, ERROR, UNKNOWN. Each member's value is a pair (code, colour).
\<close>

datatype Level = NOTE | INFO | WARN | ERROR | UNKNOWN

text \<open>\<open>list(type(self).__members__.values())\<close>: the members in declaration order.\<close>

definition members :: "Level list" where
  "members = [NOTE, INFO, WARN, ERROR, UNKNOWN]"

text \<open>
  \<open>list.index\<close>: the position of the first occurrence. Python raises ValueError when
  the element does not occur; \<open>index\<close> then returns the length of the list, and
  lemma \<open>Level_in_members\<close> below shows that this never happens for a \<open>Level\<close>.
\<close>

definition index :: "'a list \<Rightarrow> 'a \<Rightarrow> nat" where
  "index xs x = length (takeWhile (\<lambda>y. y \<noteq> x) xs)"

text \<open>\<open>Level.__lt__\<close>: compare the positions in the member list.\<close>

definition Level_lt :: "Level \<Rightarrow> Level \<Rightarrow> bool" where
  "Level_lt self other = (let a = index members self; b = index members other in a < b)"

text \<open>
  \<open>functools.total_ordering\<close> derives \<open>__gt__\<close> from \<open>__lt__\<close> and \<open>__eq__\<close>:
  \<open>a > b\<close> is \<open>not (a < b) and a != b\<close>. Enum equality is identity.
\<close>

definition Level_gt :: "Level \<Rightarrow> Level \<Rightarrow> bool" where
  "Level_gt self other = (\<not> Level_lt self other \<and> self \<noteq> other)"

text \<open>The \<open>code\<close> and \<open>color\<close> properties: the two components of the member's value.\<close>

fun code :: "Level \<Rightarrow> string" where
  "code NOTE = ''style''"
| "code INFO = ''info''"
| "code WARN = ''warning''"
| "code ERROR = ''error''"
| "code UNKNOWN = ''?''"

fun color :: "Level \<Rightarrow> string" where
  "color NOTE = ''#007FFF''"
| "color INFO = ''#813d9c''"
| "color WARN = ''#f5c200''"
| "color ERROR = ''#c01c28''"
| "color UNKNOWN = ''#c64600''"

text \<open>
  Python's builtin \<open>max\<close> over an iterable: ValueError on an empty one, otherwise the
  first item is the running maximum and a later item replaces it when \<open>item > maximum\<close>.
\<close>

definition max_step :: "Level \<Rightarrow> Level \<Rightarrow> Level" where
  "max_step maxitem item = (if Level_gt item maxitem then item else maxitem)"

fun py_max :: "Level list \<Rightarrow> py_error + Level" where
  "py_max [] = Inl ValueError"
| "py_max (x # xs) = Inr (foldl max_step x xs)"

section \<open>Decoded JSON\<close>

text \<open>
  The values \<open>json.loads\<close> produces, and \<open>Level\<close> members, which \<open>parse_shellcheck\<close>
  stores into the decoded dictionaries. A dictionary is an association list with distinct
  keys, in insertion order. JSON numbers with a fraction are not modelled.
\<close>

datatype pyval =
    PNone
  | PBool bool
  | PInt int
  | PStr string
  | PList "pyval list"
  | PDict "(string \<times> pyval) list"
  | PLevel Level

text \<open>Truth value of an object, as \<open>not x\<close> and \<open>if x\<close> use it.\<close>

fun truthy :: "pyval \<Rightarrow> bool" where
  "truthy PNone = False"
| "truthy (PBool b) = b"
| "truthy (PInt i) = (i \<noteq> 0)"
| "truthy (PStr s) = (s \<noteq> [])"
| "truthy (PList xs) = (xs \<noteq> [])"
| "truthy (PDict d) = (d \<noteq> [])"
| "truthy (PLevel l) = True"

text \<open>
  \<open>obj[key]\<close> for a string key: a dictionary gives the value or raises KeyError; every
  other value raises TypeError (not subscriptable, or indices must be integers).
\<close>

fun getitem :: "pyval \<Rightarrow> string \<Rightarrow> py_error + pyval" where
  "getitem (PDict d) k = (case map_of d k of None \<Rightarrow> Inl KeyError | Some v \<Rightarrow> Inr v)"
| "getitem other k = Inl TypeError"

text \<open>\<open>obj[key] = value\<close> for a string key: replaces the entry in place or appends a new
  one; TypeError on anything but a dictionary.\<close>

fun dict_update :: "string \<Rightarrow> pyval \<Rightarrow> (string \<times> pyval) list \<Rightarrow> (string \<times> pyval) list" where
  "dict_update k v [] = [(k, v)]"
| "dict_update k v (p # ps) = (if fst p = k then (k, v) # ps else p # dict_update k v ps)"

fun setitem :: "pyval \<Rightarrow> string \<Rightarrow> pyval \<Rightarrow> py_error + pyval" where
  "setitem (PDict d) k v = Inr (PDict (dict_update k v d))"
| "setitem other k v = Inl TypeError"

text \<open>
  The items a \<open>for\<close> loop visits: the elements of a list, the keys of a dictionary, the
  one-character strings of a string; TypeError for a value that is not iterable.
\<close>

fun iterate :: "pyval \<Rightarrow> py_error + pyval list" where
  "iterate (PList xs) = Inr xs"
| "iterate (PDict d) = Inr (map (\<lambda>p. PStr (fst p)) d)"
| "iterate (PStr s) = Inr (map (\<lambda>c. PStr [c]) s)"
| "iterate other = Inl TypeError"

text \<open>
  \<open>Level.by_code\<close>: the first member whose code equals the argument, else UNKNOWN. A
  code is a string, so it equals no value of another type.
\<close>

definition by_code :: "pyval \<Rightarrow> Level" where
  "by_code c = (case find (\<lambda>level. PStr (code level) = c) members of
                  Some level \<Rightarrow> level
                | None \<Rightarrow> UNKNOWN)"

section \<open>Gutter renderer (\<open>gutterrenderer.py\<close>)\<close>

text \<open>
  A \<open>Gtk.TextBuffer\<close> as far as the renderer uses it: its text and, for each mark, the
  offset the mark currently sits at (\<open>buf.get_iter_at_mark(m).get_offset()\<close>). Marks are
  named by numbers.
\<close>

type_synonym TextMark = nat


text \<open>The dataclass \<open>Replacement\<close> (\<open>end'\<close> and \<open>text'\<close> are its fields \<open>end\<close> and
  \<open>text\<close>).\<close>

record Replacement =
  line :: int
  endLine :: int
  column :: int
  endColumn :: int
  start :: TextMark
  end' :: TextMark
  text' :: string



text \<open>
  One comment of the snapshot, after \<open>parse_shellcheck\<close> has added \<open>levelcls\<close>: the
  entries of the dictionary that the renderer reads (\<open>file'\<close> is the entry \<open>file\<close>).
\<close>

record comment =
  file' :: string
  line :: int
  endLine :: int
  column :: int
  endColumn :: int
  levelcls :: Level

text \<open>\<open>GutterRenderer.get_messages_in_range\<close>: the comments of the buffer itself
  (file \<open>-\<close>) whose line span contains the line, in snapshot order.\<close>

definition get_messages_in_range :: "comment list \<Rightarrow> int \<Rightarrow> comment list" where
  "get_messages_in_range context_data ln =
     filter (\<lambda>msg. file' msg = ''-'' \<and> ln \<ge> line msg \<and> ln \<le> endLine msg) context_data"

text \<open>
  \<open>GutterRenderer.do_draw\<close>, as far as the choice of the level goes. The argument is
  the 0-based line of the \<open>start\<close> iterator; the result is the colour the cell is filled
  with, or \<open>None\<close> when the method returns before painting.
\<close>

definition do_draw :: "comment list \<Rightarrow> int \<Rightarrow> py_error + string option" where
  "do_draw context_data start_line =
     (let ln = start_line + 1 in
      if context_data = [] then Inr None
      else let messages = get_messages_in_range context_data ln in
        if messages = [] then Inr None
        else case py_max (map levelcls messages) of
               Inl e \<Rightarrow> Inl e
             | Inr level \<Rightarrow> Inr (Some (color level)))"

subsection \<open>\<open>merge_ranges\<close>\<close>

text \<open>
  \<open>sorted(ranges)\<close> orders the pairs lexicographically, which is the order of
  \<open>HOL-Library.Product_Lexorder\<close>. The loop body is \<open>merge_step\<close>; \<open>new_ranges\<close> is
  never empty inside the loop, so \<open>new_ranges[-1]\<close> is its last element.
\<close>

definition merge_step :: "(int \<times> int) list \<Rightarrow> int \<times> int \<Rightarrow> (int \<times> int) list" where
  "merge_step new_ranges r =
     (let start = fst r; en = snd r; lst = last new_ranges in
      if start \<ge> fst lst \<and> start \<le> snd lst \<and> en \<ge> snd lst
      then new_ranges[length new_ranges - 1 := (fst lst, en)]
      else new_ranges @ [(start, en)])"

definition merge_ranges :: "(int \<times> int) list \<Rightarrow> py_error + (int \<times> int) list" where
  "merge_ranges ranges =
     (let ranges = sort ranges in
      case ranges of
        [] \<Rightarrow> Inl IndexError
      | r0 # _ \<Rightarrow> Inr (foldl merge_step [r0] ranges))"

subsection \<open>\<open>preview_note\<close>\<close>

text \<open>
  The toolkit's text buffer, as \<open>preview_note\<close> uses it. The buffer's text is a list
  of characters, an iterator is a character offset into it, and lines end at a line feed.
  Lines and line offsets are counted from 0.
  \<^item> \<open>get_iter_at_line\<close>: the start of the line; the line after the last one gives the
    end iterator, and so does every later line.
  \<^item> \<open>get_iter_at_line_offset\<close>: that many characters into the line, stopping in front
    of the line's line feed (or at the end of the buffer) when the line is shorter.
  \<^item> \<open>get_text\<close>: the characters between two iterators, which it puts in order first.
  Only this much of the toolkit is modelled: carriage returns and other line separators
  are ordinary characters here, and negative line numbers or offsets (a comment whose
  \<open>line\<close> or \<open>column\<close> is below 1) are read as 0.
\<close>

definition NL :: char where
  "NL = CHR 0x0A"

definition line_length_at :: "string \<Rightarrow> nat \<Rightarrow> nat" where
  "line_length_at txt p = length (takeWhile (\<lambda>c. c \<noteq> NL) (drop p txt))"

fun get_iter_at_line :: "string \<Rightarrow> nat \<Rightarrow> nat" where
  "get_iter_at_line txt 0 = 0"
| "get_iter_at_line txt (Suc n) =
     (let p = get_iter_at_line txt n;
          e = p + line_length_at txt p
      in if e < length txt then Suc e else length txt)"

definition get_iter_at_line_offset :: "string \<Rightarrow> nat \<Rightarrow> nat \<Rightarrow> nat" where
  "get_iter_at_line_offset txt n char_offset =
     (let p = get_iter_at_line txt n in p + min char_offset (line_length_at txt p))"

definition get_text :: "string \<Rightarrow> nat \<Rightarrow> nat \<Rightarrow> string" where
  "get_text txt a b = (let lo = min a b; hi = max a b in take (hi - lo) (drop lo txt))"

text \<open>\<open>str.rstrip("\n")\<close>: drop the line feeds at the end.\<close>

definition rstrip_nl :: "string \<Rightarrow> string" where
  "rstrip_nl s = rev (dropWhile (\<lambda>c. c = NL) (rev s))"

text \<open>
  The three pieces of text that \<open>preview_note\<close> computes: \<open>prefix\<close>, \<open>error\<close> (the
  underlined span) and \<open>suffix\<close>.
\<close>

definition preview_note_parts :: "string \<Rightarrow> comment \<Rightarrow> string \<times> string \<times> string" where
  "preview_note_parts txt message =
     (let note_start = get_iter_at_line_offset txt (nat (line message - 1)) (nat (column message - 1));
          note_end = get_iter_at_line_offset txt (nat (endLine message - 1)) (nat (endColumn message - 1));
          line_start = get_iter_at_line txt (nat (line message - 1));
          line_end = get_iter_at_line txt (nat (endLine message));
          prefix = get_text txt line_start note_start;
          error = get_text txt note_start note_end;
          suffix = rstrip_nl (get_text txt note_end line_end)
      in (prefix, error, suffix))"

text \<open>
  \<open>preview_note\<close> itself: the markup around the three pieces.
  \<open>GLib.markup_escape_text\<close> is the parameter \<open>escape\<close>.
\<close>

definition preview_note :: "(string \<Rightarrow> string) \<Rightarrow> string \<Rightarrow> comment \<Rightarrow> string" where
  "preview_note escape txt message =
     (case preview_note_parts txt message of (prefix, error, suffix) \<Rightarrow>
        [NL] @ ''<span foreground=\"#999\" background=\"#222\">''
        @ escape prefix
        @ ''<u><span foreground=\"#F00\">'' @ escape error @ ''</span></u>''
        @ escape suffix
        @ ''</span>'')"

text \<open>The text of line \<open>n\<close> of the buffer (counted from 0), without its line feed.\<close>

definition line_at :: "string \<Rightarrow> nat \<Rightarrow> string" where
  "line_at txt n = takeWhile (\<lambda>c. c \<noteq> NL) (drop (get_iter_at_line txt n) txt)"

section \<open>Check scheduling (\<open>__init__.py\<close>)\<close>

text \<open>The delay computed in \<open>update\<close>: \<open>min(10000, 200 * (n_lines // 2000 + 1))\<close>.
  Python's \<open>//\<close> on integers is floor division, as \<open>div\<close> on \<open>int\<close> is.\<close>

definition update_delay :: "int \<Rightarrow> int" where
  "update_delay n_lines = min 10000 (200 * (n_lines div 2000 + 1))"

subsection \<open>The plugin and its surroundings\<close>

text \<open>
  \<open>Gio.File\<close>, as \<open>find_project_folder\<close> uses it: \<open>has_parent()\<close> holds when there is a
  parent, whose path is what the tool is started in.
\<close>

record GFile =
  parent_path :: "string option"

text \<open>
  The view's document: the identifier of its language (\<open>None\<close> when
  \<open>get_language()\<close> is \<open>None\<close>), the location of its file, what \<open>get_line_count()\<close>
  returns, and its text.
\<close>

record Document =
  language_id :: "string option"
  file_location :: "GFile option"
  line_count :: int
  contents :: string

text \<open>
  The state: the attributes of the \<open>ShellCheckViewActivatable\<close> instance, followed by
  what its calls act on.
  \<^item> \<open>buffer_signals\<close> holds the names of the connected signals instead of handler ids.
  \<^item> \<open>timeouts\<close> and \<open>io_watches\<close> are the sources registered with the GLib main loop:
    for a timeout its id and delay in milliseconds, for a watch its id and the number of
    the process whose output it watches. \<open>last_source\<close> is the last id handed out; ids
    start at 1, and 0 in \<open>update_timeout\<close> or \<open>parse_signal\<close> means none.
  \<^item> \<open>processes\<close> lists the started tool processes: working directory and input text.
  \<^item> \<open>tool_installed\<close> tells whether starting \<open>shellcheck\<close> succeeds; \<open>warnings_issued\<close>
    counts the calls of \<open>warnings.warn\<close>, \<open>redraws\<close> those of the renderer's \<open>update\<close>.
\<close>

record state =
  context_data :: pyval
  update_timeout :: nat
  parse_signal :: nat
  connected :: bool
  location :: "GFile option"
  project_folder :: "string option"
  buffer :: "Document option"
  buffer_signals :: "string list"
  gutter_inserted :: bool
  redraws :: nat
  timeouts :: "(nat \<times> int) list"
  io_watches :: "(nat \<times> nat) list"
  last_source :: nat
  processes :: "(string \<times> string) list"
  tool_installed :: bool
  warnings_issued :: nat

text \<open>The instance after \<open>__init__\<close>, in a main loop with no sources yet.\<close>

definition init :: "bool \<Rightarrow> state" where
  "init installed =
     \<lparr>context_data = PDict [], update_timeout = 0, parse_signal = 0, connected = False,
      location = None, project_folder = None, buffer = None, buffer_signals = [],
      gutter_inserted = False, redraws = 0, timeouts = [], io_watches = [],
      last_source = 0, processes = [], tool_installed = installed, warnings_issued = 0\<rparr>"

text \<open>\<open>GLib.source_remove\<close>, \<open>GLib.timeout_add\<close> and \<open>GLib.io_add_watch\<close>.\<close>

definition source_remove :: "nat \<Rightarrow> state \<Rightarrow> state" where
  "source_remove i s =
     s\<lparr>timeouts := filter (\<lambda>t. fst t \<noteq> i) (timeouts s),
       io_watches := filter (\<lambda>w. fst w \<noteq> i) (io_watches s)\<rparr>"

definition timeout_add :: "int \<Rightarrow> state \<Rightarrow> nat \<times> state" where
  "timeout_add delay s =
     (let i = Suc (last_source s)
      in (i, s\<lparr>timeouts := timeouts s @ [(i, delay)], last_source := i\<rparr>))"

definition io_add_watch :: "nat \<Rightarrow> state \<Rightarrow> nat \<times> state" where
  "io_add_watch proc s =
     (let i = Suc (last_source s)
      in (i, s\<lparr>io_watches := io_watches s @ [(i, proc)], last_source := i\<rparr>))"

text \<open>The three lines that several methods share:
  \<open>if self.parse_signal != 0: GLib.source_remove(self.parse_signal); self.parse_signal = 0\<close>.\<close>

definition drop_parse_signal :: "state \<Rightarrow> state" where
  "drop_parse_signal s =
     (if parse_signal s \<noteq> 0 then (source_remove (parse_signal s) s)\<lparr>parse_signal := 0\<rparr> else s)"

subsection \<open>\<open>parse_shellcheck\<close>\<close>

text \<open>The body of the loop over the comments:
  \<open>comment["levelcls"] = Level.by_code(comment["level"])\<close>.\<close>

definition add_levelcls :: "pyval \<Rightarrow> py_error + pyval" where
  "add_levelcls comment =
     (case getitem comment ''level'' of
        Inl e \<Rightarrow> Inl e
      | Inr lv \<Rightarrow> setitem comment ''levelcls'' (PLevel (by_code lv)))"

fun add_levelcls_all :: "pyval list \<Rightarrow> py_error + pyval list" where
  "add_levelcls_all [] = Inr []"
| "add_levelcls_all (c # cs) =
     (case add_levelcls c of
        Inl e \<Rightarrow> Inl e
      | Inr c' \<Rightarrow> (case add_levelcls_all cs of Inl e \<Rightarrow> Inl e | Inr cs' \<Rightarrow> Inr (c' # cs')))"

text \<open>
  The whole loop. The loop changes the visited dictionaries in place, so a list comes out
  with its elements changed; the items of a dictionary or a string are strings, on which
  the body raises.
\<close>

definition for_comments :: "pyval \<Rightarrow> py_error + pyval" where
  "for_comments comments =
     (case iterate comments of
        Inl e \<Rightarrow> Inl e
      | Inr items \<Rightarrow>
          (case add_levelcls_all items of
             Inl e \<Rightarrow> Inl e
           | Inr items' \<Rightarrow> Inr (case comments of PList xs \<Rightarrow> PList items' | other \<Rightarrow> comments)))"

text \<open>
  \<open>parse_shellcheck\<close>. \<open>json.loads\<close> is the parameter \<open>loads\<close>, with \<open>None\<close> for
  JSONDecodeError. \<open>Inl e\<close> means that the exception \<open>e\<close> leaves the method; the
  instance is then as it was before the call.
\<close>

definition parse_shellcheck :: "(string \<Rightarrow> pyval option) \<Rightarrow> state \<Rightarrow> string \<Rightarrow> py_error + state" where
  "parse_shellcheck loads self output =
     (case loads output of
        None \<Rightarrow> Inr self
      | Some data \<Rightarrow>
          (case getitem data ''comments'' of
             Inl e \<Rightarrow> Inl e
           | Inr comments \<Rightarrow>
               (case for_comments comments of
                  Inl e \<Rightarrow> Inl e
                | Inr comments' \<Rightarrow>
                    Inr (self\<lparr>context_data := comments', redraws := Suc (redraws self)\<rparr>))))"

subsection \<open>Attaching and detaching\<close>

definition should_check :: "state \<Rightarrow> py_error + bool" where
  "should_check self =
     (if location self = None then Inr False
      else case buffer self of
             None \<Rightarrow> Inl AttributeError
           | Some b \<Rightarrow>
               (case language_id b of
                  None \<Rightarrow> Inr False
                | Some i \<Rightarrow> Inr (take 2 i = ''sh'')))"

text \<open>\<open>find_project_folder\<close>: the parent of the location, or FileNotFoundError when it
  has none.\<close>

definition find_project_folder :: "state \<Rightarrow> py_error + string" where
  "find_project_folder self =
     (case location self of
        None \<Rightarrow> Inl AttributeError
      | Some f \<Rightarrow>
          (case parent_path f of
             None \<Rightarrow> Inl FileNotFoundError
           | Some folder \<Rightarrow> Inr folder))"

definition disconnect_gutter :: "state \<Rightarrow> py_error + state" where
  "disconnect_gutter self =
     (if \<not> connected self then Inr self
      else if buffer_signals self = [] then Inl IndexError
      else Inr (self\<lparr>gutter_inserted := False,
                     buffer_signals := butlast (buffer_signals self),
                     connected := False\<rparr>))"

definition connect_gutter :: "state \<Rightarrow> state" where
  "connect_gutter self =
     (if connected self then self
      else self\<lparr>gutter_inserted := True,
                buffer_signals := buffer_signals self @ [''changed''],
                connected := True\<rparr>)"

subsection \<open>\<open>on_update_timeout\<close> and \<open>update\<close>\<close>

text \<open>
  \<open>on_update_timeout\<close>: starts the tool on the buffer's text and registers the watch on
  its output; when the tool cannot be started it warns and returns.
\<close>

definition on_update_timeout :: "state \<Rightarrow> py_error + state" where
  "on_update_timeout self =
     (let s1 = drop_parse_signal (self\<lparr>update_timeout := 0\<rparr>);
          s2 = (if buffer s1 = None then s1\<lparr>context_data := PDict []\<rparr> else s1)
      in case project_folder s2 of
           None \<Rightarrow> Inr s2
         | Some folder \<Rightarrow>
             (case buffer s2 of
                None \<Rightarrow> Inl AttributeError
              | Some b \<Rightarrow>
                  if \<not> tool_installed s2 then Inr (s2\<lparr>warnings_issued := Suc (warnings_issued s2)\<rparr>)
                  else let s3 = s2\<lparr>processes := processes s2 @ [(folder, contents b)]\<rparr>;
                           w = io_add_watch (length (processes s3)) s3
                       in Inr ((snd w)\<lparr>parse_signal := fst w\<rparr>)))"

definition update :: "state \<Rightarrow> py_error + state" where
  "update self =
     (if \<not> connected self then Inr self
      else if update_timeout self \<noteq> 0 then Inr self
      else let s1 = drop_parse_signal self
           in if \<not> truthy (context_data s1) then on_update_timeout s1
              else case buffer s1 of
                     None \<Rightarrow> Inl AttributeError
                   | Some b \<Rightarrow>
                       (let n_lines = line_count b;
                            delay = update_delay n_lines;
                            t = timeout_add delay s1
                        in Inr ((snd t)\<lparr>update_timeout := fst t\<rparr>)))"

definition update_location :: "state \<Rightarrow> py_error + state" where
  "update_location self =
     (case buffer self of
        None \<Rightarrow> Inl AttributeError
      | Some b \<Rightarrow>
          (let s1 = self\<lparr>location := file_location b\<rparr>
           in case should_check s1 of
                Inl e \<Rightarrow> Inl e
              | Inr False \<Rightarrow> disconnect_gutter s1
              | Inr True \<Rightarrow>
                  (case find_project_folder s1 of
                     Inl FileNotFoundError \<Rightarrow> disconnect_gutter s1
                   | Inl e \<Rightarrow> Inl e
                   | Inr folder \<Rightarrow> update (connect_gutter (s1\<lparr>project_folder := Some folder\<rparr>)))))"

text \<open>\<open>on_notify_buffer\<close>; the argument is the view's new buffer.\<close>

definition on_notify_buffer :: "Document \<Rightarrow> state \<Rightarrow> py_error + state" where
  "on_notify_buffer new_buffer self =
     (let s1 = (if update_timeout self \<noteq> 0 then source_remove (update_timeout self) self else self);
          s2 = drop_parse_signal s1;
          s3 = (if buffer s2 \<noteq> None then s2\<lparr>buffer_signals := []\<rparr> else s2);
          s4 = s3\<lparr>buffer := Some new_buffer,
                  buffer_signals := [''saved'', ''loaded'', ''notify::language'']\<rparr>
      in update_location s4)"

subsection \<open>What the main loop and the editor call\<close>

text \<open>
  The buffer emits \<open>changed\<close>: \<open>update\<close> runs when that signal is connected. The argument
  is the document after the change.
\<close>

definition buffer_changed :: "Document \<Rightarrow> state \<Rightarrow> py_error + state" where
  "buffer_changed b self =
     (let s1 = self\<lparr>buffer := Some b\<rparr>
      in if ''changed'' \<in> set (buffer_signals s1) then update s1 else Inr s1)"

text \<open>
  The buffer emits \<open>saved\<close>, \<open>loaded\<close> or \<open>notify::language\<close>: \<open>_update_location\<close> runs
  when that signal is connected. The argument is the document as it is now.
\<close>

definition buffer_notify :: "string \<Rightarrow> Document \<Rightarrow> state \<Rightarrow> py_error + state" where
  "buffer_notify signal b self =
     (let s1 = self\<lparr>buffer := Some b\<rparr>
      in if signal \<in> set (buffer_signals s1) \<and> signal \<noteq> ''changed'' then update_location s1 else Inr s1)"

text \<open>
  The timeout source \<open>i\<close> fires: the main loop calls \<open>on_update_timeout\<close> and, since
  that returns nothing, removes the source. A source that is not registered does not fire.
\<close>

definition timeout_fires :: "nat \<Rightarrow> state \<Rightarrow> py_error + state" where
  "timeout_fires i self =
     (if i \<notin> fst ` set (timeouts self) then Inr self
      else case on_update_timeout self of
             Inl e \<Rightarrow> Inl e
           | Inr s1 \<Rightarrow> Inr (s1\<lparr>timeouts := filter (\<lambda>t. fst t \<noteq> i) (timeouts s1)\<rparr>))"

text \<open>
  The last call of \<open>on_read\<close> for the watch \<open>i\<close>, with the whole output of the process
  read: \<open>parse_shellcheck\<close>, then \<open>parse_signal = 0\<close>, and the watch is removed because
  the callback returns \<open>False\<close>. A watch that is not registered is not called.
\<close>

definition output_complete :: "(string \<Rightarrow> pyval option) \<Rightarrow> nat \<Rightarrow> string \<Rightarrow> state \<Rightarrow> py_error + state" where
  "output_complete loads i data self =
     (if i \<notin> fst ` set (io_watches self) then Inr self
      else case parse_shellcheck loads self data of
             Inl e \<Rightarrow> Inl e
           | Inr s1 \<Rightarrow> Inr (s1\<lparr>parse_signal := 0,
                                io_watches := filter (\<lambda>w. fst w \<noteq> i) (io_watches s1)\<rparr>))"

section \<open>The delay as the specification words it\<close>

text \<open>
  \<open>min(10000ms, 200ms \<times> ceil(lineCount / 2000))\<close>, with the ceiling of the quotient
  computed on integers: \<open>ceil(a / b) = - ((- a) div b)\<close> for positive \<open>b\<close>.
\<close>

definition spec_delay :: "int \<Rightarrow> int" where
  "spec_delay lineCount = min 10000 (200 * (- ((- lineCount) div 2000)))"

section \<open>Concrete inputs\<close>

text \<open>A comment of the buffer itself on line 1, with the given level.\<close>

definition comment_on_line_1 :: "Level \<Rightarrow> comment" where
  "comment_on_line_1 l =
     \<lparr>file' = ''-'', line = 1, endLine = 1, column = 1, endColumn = 2, levelcls = l\<rparr>"



text \<open>A buffer with the lines \<open>ab\<close> and \<open>cd\<close>, a comment from the second character of
  the first line to the second character of the second line, and a comment on the second
  character of the first line.\<close>

definition two_lines :: string where
  "two_lines = ''ab'' @ [NL] @ ''cd'' @ [NL]"

definition comment_over_two_lines :: comment where
  "comment_over_two_lines =
     \<lparr>file' = ''-'', line = 1, endLine = 2, column = 2, endColumn = 2, levelcls = WARN\<rparr>"

definition comment_in_one_line :: comment where
  "comment_in_one_line =
     \<lparr>file' = ''-'', line = 1, endLine = 1, column = 2, endColumn = 3, levelcls = WARN\<rparr>"

text \<open>A shell script of two lines in a folder, and the same document after its language
  was changed to Python.\<close>

definition script :: Document where
  "script =
     \<lparr>language_id = Some ''sh'',
      file_location = Some \<lparr>parent_path = Some ''/home/user/bin''\<rparr>,
      line_count = 3,
      contents = ''echo $1'' @ [NL] @ ''exit 0'' @ [NL]\<rparr>"

definition script_as_python :: Document where
  "script_as_python = script\<lparr>language_id := Some ''python''\<rparr>"

text \<open>
  Three outputs and what \<open>json.loads\<close> returns for them: a run without findings, a run
  with one finding, and a JSON document without the key \<open>comments\<close>. \<open>loads_of_samples\<close>
  is \<open>json.loads\<close> on these three strings; it is used on no other string of valid JSON.
\<close>

definition no_findings :: string where
  "no_findings = ''{\"comments\":[]}''"

definition one_finding :: string where
  "one_finding = ''{\"comments\":[{\"file\":\"-\",\"line\":1,\"endLine\":1,\"column\":6,\"endColumn\":8,\"level\":\"info\",\"code\":2086}]}''"

definition one_finding_decoded :: pyval where
  "one_finding_decoded =
     PDict [(''comments'',
       PList [PDict [(''file'', PStr ''-''), (''line'', PInt 1), (''endLine'', PInt 1),
                     (''column'', PInt 6), (''endColumn'', PInt 8),
                     (''level'', PStr ''info''), (''code'', PInt 2086)]])]"

definition loads_of_samples :: "string \<Rightarrow> pyval option" where
  "loads_of_samples output =
     (if output = no_findings then Some (PDict [(''comments'', PList [])])
      else if output = one_finding then Some one_finding_decoded
      else if output = ''{}'' then Some (PDict [])
      else None)"

text \<open>Running one handler after another; an exception ends the run.\<close>

definition and_then :: "py_error + 'a \<Rightarrow> ('a \<Rightarrow> py_error + 'b) \<Rightarrow> py_error + 'b" where
  "and_then r f = (case r of Inl e \<Rightarrow> Inl e | Inr x \<Rightarrow> f x)"

text \<open>
  The plugin is activated on the script, and the first check has completed.
  \<^item> \<open>checked_clean\<close>: the tool reported no findings.
  \<^item> \<open>checked_one\<close>: the tool reported one finding.
\<close>

definition checked_clean :: "py_error + state" where
  "checked_clean =
     and_then (on_notify_buffer script (init True))
       (output_complete loads_of_samples 1 no_findings)"

definition checked_one :: "py_error + state" where
  "checked_one =
     and_then (on_notify_buffer script (init True))
       (output_complete loads_of_samples 1 one_finding)"

text \<open>
  Detaching by a change of language.
  \<^item> \<open>detached_with_timer\<close>: after the first check the buffer changes, which schedules a
    check, and then the language of the document becomes Python.
  \<^item> \<open>detached_in_flight\<close>: the language becomes Python while the first check is still
    running.
\<close>

definition detached_with_timer :: "py_error + state" where
  "detached_with_timer =
     and_then (and_then checked_one (buffer_changed script))
       (buffer_notify ''notify::language'' script_as_python)"

definition detached_in_flight :: "py_error + state" where
  "detached_in_flight =
     and_then (on_notify_buffer script (init True))
       (buffer_notify ''notify::language'' script_as_python)"

text \<open>The state \<open>checked_one\<close> ends in, written out (lemma \<open>checked_one_state\<close>).\<close>

definition attached_one :: state where
  "attached_one =
     \<lparr>context_data =
        PList [PDict [(''file'', PStr ''-''), (''line'', PInt 1), (''endLine'', PInt 1),
                      (''column'', PInt 6), (''endColumn'', PInt 8),
                      (''level'', PStr ''info''), (''code'', PInt 2086),
                      (''levelcls'', PLevel INFO)]],
      update_timeout = 0, parse_signal = 0, connected = True,
      location = Some \<lparr>parent_path = Some ''/home/user/bin''\<rparr>,
      project_folder = Some ''/home/user/bin'', buffer = Some script,
      buffer_signals = [''saved'', ''loaded'', ''notify::language'', ''changed''],
      gutter_inserted = True, redraws = 1, timeouts = [], io_watches = [],
      last_source = 1, processes = [(''/home/user/bin'', contents script)],
      tool_installed = True, warnings_issued = 0\<rparr>"

section \<open>Unfolding rules\<close>

lemmas scheduler_defs =
  init_def source_remove_def timeout_add_def io_add_watch_def drop_parse_signal_def
  should_check_def find_project_folder_def disconnect_gutter_def connect_gutter_def
  on_update_timeout_def update_def update_location_def on_notify_buffer_def
  buffer_changed_def buffer_notify_def timeout_fires_def output_complete_def
  update_delay_def and_then_def

lemmas parse_defs =
  parse_shellcheck_def for_comments_def add_levelcls_def by_code_def members_def
  loads_of_samples_def no_findings_def one_finding_def one_finding_decoded_def

lemmas sample_defs =
  script_def script_as_python_def checked_clean_def checked_one_def
  detached_with_timer_def detached_in_flight_def

section \<open>The order of the levels\<close>

lemma Level_in_members: "l \<in> set members"
  by (cases l) (simp_all add: members_def)

lemma index_members [simp]:
  "index members NOTE = 0" "index members INFO = 1" "index members WARN = 2"
  "index members ERROR = 3" "index members UNKNOWN = 4"
  by (simp_all add: index_def members_def)

lemma Level_lt_trans: "Level_lt a b \<Longrightarrow> Level_lt b c \<Longrightarrow> Level_lt a c"
  by (simp add: Level_lt_def)

lemma Level_lt_irrefl: "\<not> Level_lt a a"
  by (simp add: Level_lt_def)

lemma Level_lt_total: "Level_lt a b \<or> a = b \<or> Level_lt b a"
  by (cases a; cases b) (simp_all add: Level_lt_def)

lemma max_step_cases: "max_step m x = m \<or> max_step m x = x"
  by (simp add: max_step_def)

lemma max_step_ge_left: "\<not> Level_lt (max_step m x) m"
  by (cases m; cases x) (simp_all add: max_step_def Level_gt_def Level_lt_def)

lemma max_step_ge_right: "\<not> Level_lt (max_step m x) x"
  by (cases m; cases x) (simp_all add: max_step_def Level_gt_def Level_lt_def)

lemma not_lt_trans: "\<not> Level_lt b a \<Longrightarrow> \<not> Level_lt c b \<Longrightarrow> \<not> Level_lt c a"
  by (cases a; cases b; cases c) (simp_all add: Level_lt_def)

lemma foldl_max_step_mem: "foldl max_step m xs \<in> insert m (set xs)"
proof (induction xs arbitrary: m)
  case Nil
  show ?case by simp
next
  case (Cons x xs)
  have "foldl max_step (max_step m x) xs \<in> insert (max_step m x) (set xs)"
    by (rule Cons.IH)
  with max_step_cases [of m x] show ?case by auto
qed

lemma foldl_max_step_ge_init: "\<not> Level_lt (foldl max_step m xs) m"
proof (induction xs arbitrary: m)
  case Nil
  show ?case by (simp add: Level_lt_irrefl)
next
  case (Cons x xs)
  have "\<not> Level_lt (foldl max_step (max_step m x) xs) (max_step m x)"
    by (rule Cons.IH)
  with max_step_ge_left [of m x] show ?case
    using not_lt_trans by auto
qed

lemma foldl_max_step_ge_all: "y \<in> set xs \<Longrightarrow> \<not> Level_lt (foldl max_step m xs) y"
proof (induction xs arbitrary: m)
  case Nil
  then show ?case by simp
next
  case (Cons x xs)
  show ?case
  proof (cases "y = x")
    case True
    have "\<not> Level_lt (foldl max_step (max_step m x) xs) (max_step m x)"
      by (rule foldl_max_step_ge_init)
    with max_step_ge_right [of m x] True show ?thesis
      using not_lt_trans by auto
  next
    case False
    with Cons.prems have "y \<in> set xs" by simp
    then show ?thesis using Cons.IH by simp
  qed
qed

lemma py_max_nonempty:
  assumes "ls \<noteq> []"
  shows "\<exists>m. py_max ls = Inr m \<and> m \<in> set ls \<and> (\<forall>y \<in> set ls. \<not> Level_lt m y)"
proof -
  from assms obtain x xs where ls: "ls = x # xs" by (cases ls) auto
  let ?m = "foldl max_step x xs"
  have "?m \<in> set ls" using foldl_max_step_mem [of x xs] ls by simp
  moreover have "\<forall>y \<in> set ls. \<not> Level_lt ?m y"
    using foldl_max_step_ge_init [of x xs] foldl_max_step_ge_all [of _ xs x] ls by auto
  ultimately show ?thesis using ls by simp
qed

text \<open>
  Claim C1, as the code has it. The levels are totally ordered by their position in the
  enumeration, NOTE < INFO < WARN < ERROR < UNKNOWN: UNKNOWN is distinct from the other
  four and is the greatest level, not the least. Whenever at least one comment covers the
  line that is drawn, \<open>do_draw\<close> paints the colour of a covering comment whose level no
  other covering comment exceeds in this order.
\<close>

theorem worst_level_is_maximum:
  "Level_lt NOTE INFO \<and> Level_lt INFO WARN \<and> Level_lt WARN ERROR \<and> Level_lt ERROR UNKNOWN
   \<and> (\<forall>a b. Level_lt a b \<or> a = b \<or> Level_lt b a)
   \<and> (\<forall>a b c. Level_lt a b \<longrightarrow> Level_lt b c \<longrightarrow> Level_lt a c)
   \<and> (\<forall>a. \<not> Level_lt a a)
   \<and> (get_messages_in_range snapshot (start_line + 1) \<noteq> [] \<longrightarrow>
        (\<exists>m \<in> set (get_messages_in_range snapshot (start_line + 1)).
           do_draw snapshot start_line = Inr (Some (color (levelcls m)))
           \<and> (\<forall>x \<in> set (get_messages_in_range snapshot (start_line + 1)).
                 \<not> Level_lt (levelcls m) (levelcls x))))"
proof -
  let ?ms = "get_messages_in_range snapshot (start_line + 1)"
  have order: "Level_lt NOTE INFO \<and> Level_lt INFO WARN \<and> Level_lt WARN ERROR
               \<and> Level_lt ERROR UNKNOWN"
    by (simp add: Level_lt_def)
  have draw: "\<exists>m \<in> set ?ms. do_draw snapshot start_line = Inr (Some (color (levelcls m)))
                \<and> (\<forall>x \<in> set ?ms. \<not> Level_lt (levelcls m) (levelcls x))"
    if ne: "?ms \<noteq> []"
  proof -
    from ne have "map levelcls ?ms \<noteq> []" by simp
    from py_max_nonempty [OF this] obtain l where
      l: "py_max (map levelcls ?ms) = Inr l" "l \<in> set (map levelcls ?ms)"
         "\<forall>y \<in> set (map levelcls ?ms). \<not> Level_lt l y"
      by blast
    from l(2) obtain m where m: "m \<in> set ?ms" "levelcls m = l" by auto
    from ne have ctx: "snapshot \<noteq> []" by (auto simp add: get_messages_in_range_def)
    have "do_draw snapshot start_line = Inr (Some (color l))"
      using ne ctx l(1) by (simp add: do_draw_def Let_def)
    with m l(3) show ?thesis by auto
  qed
  show ?thesis
    using order Level_lt_total Level_lt_trans Level_lt_irrefl draw by blast
qed

text \<open>The example of the specification: the worst of INFO, ERROR and NOTE is ERROR.\<close>

theorem worst_level_is_maximum_witness:
  "get_messages_in_range
     [comment_on_line_1 INFO, comment_on_line_1 ERROR, comment_on_line_1 NOTE] (0 + 1) \<noteq> []
   \<and> do_draw [comment_on_line_1 INFO, comment_on_line_1 ERROR, comment_on_line_1 NOTE] 0
       = Inr (Some (color ERROR))"
  using worst_level_is_maximum
    [of "[comment_on_line_1 INFO, comment_on_line_1 ERROR, comment_on_line_1 NOTE]" 0]
  by (simp add: get_messages_in_range_def comment_on_line_1_def do_draw_def
      max_step_def Level_gt_def Level_lt_def)

text \<open>
  Claim C1 as stated fails: UNKNOWN does not sort below NOTE, and on a line covered by an
  ERROR comment and an UNKNOWN comment the colour of UNKNOWN is painted.
\<close>

theorem unknown_outranks_error:
  "\<not> Level_lt UNKNOWN NOTE \<and> Level_lt ERROR UNKNOWN
   \<and> do_draw [comment_on_line_1 ERROR, comment_on_line_1 UNKNOWN] 0
       = Inr (Some (color UNKNOWN))"
  by (simp add: get_messages_in_range_def comment_on_line_1_def do_draw_def
      max_step_def Level_gt_def Level_lt_def)

section \<open>Merging ranges\<close>

lemma merge_step_nonempty: "acc \<noteq> [] \<Longrightarrow> merge_step acc r \<noteq> []"
  by (simp add: merge_step_def Let_def)

lemma foldl_merge_step_nonempty: "acc \<noteq> [] \<Longrightarrow> foldl merge_step acc rs \<noteq> []"
  by (induction rs arbitrary: acc) (simp_all add: merge_step_nonempty)

lemma sort_eq_Nil: "sort rs = [] \<longleftrightarrow> rs = []"
  using length_sort [of "\<lambda>x. x" rs] by (metis length_0_conv)

text \<open>
  Claim C2 at the input \<open>[(1, 10), (2, 5)]\<close>: the interval (2, 5) lies inside (1, 10), and
  \<open>merge_ranges\<close> returns both intervals. The result is neither disjoint nor minimal, and
  the nested interval is not absorbed.
\<close>

theorem merge_ranges_nested_not_absorbed:
  "merge_ranges [(1, 10), (2, 5)] = Inr [(1, 10), (2, 5)]"
  by (simp add: merge_ranges_def merge_step_def)

text \<open>
  Claim C9 at the input \<open>[(1, 5), (2, 3), (3, 8)]\<close>: merging gives \<open>[(1, 5), (2, 8)]\<close>, and
  merging that gives \<open>[(1, 8)]\<close>, so merging twice differs from merging once.
\<close>

theorem merge_ranges_not_idempotent:
  "merge_ranges [(1, 5), (2, 3), (3, 8)] = Inr [(1, 5), (2, 8)]
   \<and> merge_ranges [(1, 5), (2, 8)] = Inr [(1, 8)]"
  by (simp add: merge_ranges_def merge_step_def)

text \<open>The example of the specification: ranges that touch are merged into one.\<close>

lemma merge_ranges_touching:
  "merge_ranges [(5, 10), (10, 15), (20, 25)] = Inr [(5, 15), (20, 25)]"
  by (simp add: merge_ranges_def merge_step_def)

text \<open>
  Claim C7, as the code has it. \<open>merge_ranges\<close> raises IndexError on the empty list and
  on no other list; on every non-empty list it returns a non-empty list.
\<close>

theorem merge_ranges_defined_iff_nonempty:
  "(merge_ranges ranges = Inl IndexError \<longleftrightarrow> ranges = [])
   \<and> (ranges \<noteq> [] \<longrightarrow> (\<exists>out. merge_ranges ranges = Inr out \<and> out \<noteq> []))"
proof (cases "sort ranges")
  case Nil
  then have "ranges = []" by (simp add: sort_eq_Nil)
  then show ?thesis by (simp add: merge_ranges_def)
next
  case (Cons r0 rest)
  then have ne: "ranges \<noteq> []" by auto
  have "merge_ranges ranges = Inr (foldl merge_step [r0] (r0 # rest))"
    using Cons by (simp add: merge_ranges_def)
  moreover have "foldl merge_step [r0] (r0 # rest) \<noteq> []"
    by (rule foldl_merge_step_nonempty) simp
  ultimately show ?thesis using ne by simp
qed

theorem merge_ranges_defined_witness:
  "[(1, 3)] \<noteq> ([] :: (int \<times> int) list) \<and> merge_ranges [(1, 3)] = Inr [(1, 3)]"
  using merge_ranges_defined_iff_nonempty [of "[(1, 3)]"]
  by (simp add: merge_ranges_def merge_step_def)

text \<open>Claim C7 as stated fails: on the empty list the result is not the empty list.\<close>

theorem merge_ranges_empty_not_empty: "merge_ranges [] \<noteq> Inr []"
  by (simp add: merge_ranges_def)

section \<open>The inserted ranges\<close>



section \<open>The first check on the script\<close>

lemma attach_script:
  "on_notify_buffer script (init True) =
     Inr \<lparr>context_data = PDict [], update_timeout = 0, parse_signal = 1, connected = True,
          location = Some \<lparr>parent_path = Some ''/home/user/bin''\<rparr>,
          project_folder = Some ''/home/user/bin'', buffer = Some script,
          buffer_signals = [''saved'', ''loaded'', ''notify::language'', ''changed''],
          gutter_inserted = True, redraws = 0, timeouts = [], io_watches = [(1, 1)],
          last_source = 1, processes = [(''/home/user/bin'', contents script)],
          tool_installed = True, warnings_issued = 0\<rparr>"
  by (simp add: scheduler_defs script_def)

lemma checked_one_state: "checked_one = Inr attached_one"
  by (simp add: checked_one_def attach_script)
     (simp add: scheduler_defs parse_defs attached_one_def)

section \<open>The delay\<close>

lemma update_delay_small: "0 \<le> n \<Longrightarrow> n < 2000 \<Longrightarrow> update_delay n = 200"
  by (simp add: update_delay_def)

lemma update_delay_clamped: "98000 \<le> n \<Longrightarrow> update_delay n = 10000"
proof -
  assume "98000 \<le> n"
  then have "(98000::int) div 2000 \<le> n div 2000" by (rule zdiv_mono1) simp
  then have "49 \<le> n div 2000" by simp
  then show ?thesis by (simp add: update_delay_def)
qed

lemma ceil_div_2000:
  "- ((- n) div 2000) = (if (n::int) mod 2000 = 0 then n div 2000 else n div 2000 + 1)"
  by (simp add: zdiv_zminus1_eq_if)

lemma update_delay_vs_spec_not_dvd: "\<not> 2000 dvd n \<Longrightarrow> update_delay n = spec_delay n"
  by (simp add: update_delay_def spec_delay_def ceil_div_2000 dvd_eq_mod_eq_0)

lemma update_delay_vs_spec_dvd:
  "2000 dvd n \<Longrightarrow> update_delay n = min 10000 (spec_delay n + 200)"
  by (simp add: update_delay_def spec_delay_def ceil_div_2000 dvd_eq_mod_eq_0 min_def)

lemma drop_parse_signal_fields:
  "connected (drop_parse_signal s) = connected s"
  "update_timeout (drop_parse_signal s) = update_timeout s"
  "context_data (drop_parse_signal s) = context_data s"
  "buffer (drop_parse_signal s) = buffer s"
  "processes (drop_parse_signal s) = processes s"
  by (simp_all add: drop_parse_signal_def source_remove_def)

lemma update_schedules:
  assumes "connected s" "update_timeout s = 0" "truthy (context_data s)" "buffer s = Some b"
  shows "\<exists>s'. update s = Inr s' \<and> update_timeout s' \<noteq> 0
           \<and> timeouts s' = timeouts (drop_parse_signal s) @ [(update_timeout s', update_delay (line_count b))]
           \<and> processes s' = processes s"
  using assms
  by (simp add: update_def Let_def drop_parse_signal_fields timeout_add_def)

text \<open>
  Claim C3, as the code has it. When \<open>update\<close> schedules a check (the plugin is connected,
  no timer is pending and the snapshot is not empty), it starts no process and registers
  one timeout, whose delay for a buffer of \<open>n\<close> lines is
  \<open>min(10000, 200 * (n div 2000 + 1))\<close>. That is 200 ms for a buffer under 2000 lines,
  600 ms for 4001 lines, and 10000 ms from 98000 lines on. It equals the formula with the
  ceiling, \<open>spec_delay\<close>, when the line count is not a multiple of 2000, and is one step
  of 200 ms above it (up to the cap) when it is.
\<close>

theorem update_schedules_delay:
  assumes "connected self" and "update_timeout self = 0" and "truthy (context_data self)"
    and "buffer self = Some b" and "line_count b = n"
  shows "(\<exists>s'. update self = Inr s' \<and> update_timeout s' \<noteq> 0
            \<and> timeouts s' = timeouts (drop_parse_signal self) @ [(update_timeout s', update_delay n)]
            \<and> processes s' = processes self)
         \<and> update_delay n = min 10000 (200 * (n div 2000 + 1))
         \<and> (0 \<le> n \<and> n < 2000 \<longrightarrow> update_delay n = 200)
         \<and> (98000 \<le> n \<longrightarrow> update_delay n = 10000)
         \<and> (\<not> 2000 dvd n \<longrightarrow> update_delay n = spec_delay n)
         \<and> (2000 dvd n \<longrightarrow> update_delay n = min 10000 (spec_delay n + 200))
         \<and> update_delay 4001 = 600"
proof -
  have sched: "\<exists>s'. update self = Inr s' \<and> update_timeout s' \<noteq> 0
            \<and> timeouts s' = timeouts (drop_parse_signal self) @ [(update_timeout s', update_delay n)]
            \<and> processes s' = processes self"
    using update_schedules [OF assms(1-4)] assms(5) by simp
  have "update_delay n = min 10000 (200 * (n div 2000 + 1))"
    by (simp add: update_delay_def)
  moreover have "update_delay 4001 = 600"
    by (simp add: update_delay_def)
  ultimately show ?thesis
    using sched update_delay_small update_delay_clamped update_delay_vs_spec_not_dvd
      update_delay_vs_spec_dvd
    by blast
qed

theorem update_schedules_delay_witness:
  "connected attached_one \<and> update_timeout attached_one = 0
   \<and> truthy (context_data attached_one) \<and> buffer attached_one = Some script
   \<and> line_count script = 3
   \<and> map_sum id timeouts (update attached_one) = Inr [(2, 200)]
   \<and> update_delay 3 = 200 \<and> update_delay 3 = spec_delay 3"
  using update_schedules_delay [of attached_one script 3]
  by (simp add: attached_one_def script_def scheduler_defs spec_delay_def)

text \<open>
  Claim C3 as stated fails: at 2000 lines the delay is 400 ms, where the formula with the
  ceiling gives 200 ms, and at 4001 lines the delay is 600 ms, not 400 ms.
\<close>

theorem update_delay_differs_from_ceiling:
  "update_delay 2000 \<noteq> spec_delay 2000 \<and> update_delay 4001 \<noteq> 400"
  by (simp add: update_delay_def spec_delay_def)

section \<open>Parsing the output\<close>

lemma parse_shellcheck_not_json:
  "loads output = None \<Longrightarrow> parse_shellcheck loads self output = Inr self"
  by (simp add: parse_shellcheck_def)

lemma parse_shellcheck_no_comments_key:
  "loads output = Some (PDict d) \<Longrightarrow> map_of d ''comments'' = None
   \<Longrightarrow> parse_shellcheck loads self output = Inl KeyError"
  by (simp add: parse_shellcheck_def)

lemma parse_shellcheck_not_a_dict:
  "loads output = Some (PList xs) \<Longrightarrow> parse_shellcheck loads self output = Inl TypeError"
  by (simp add: parse_shellcheck_def)

text \<open>
  Claim C4 at the output \<open>{}\<close>, received when the snapshot holds one finding:
  \<open>json.loads\<close> succeeds, \<open>data["comments"]\<close> raises KeyError, and the exception leaves
  \<open>parse_shellcheck\<close>.
\<close>

theorem parse_shellcheck_raises_on_empty_object:
  "map_sum id (\<lambda>s. truthy (context_data s)) checked_one = Inr True
   \<and> and_then checked_one (\<lambda>self. parse_shellcheck loads_of_samples self ''{}'')
       = Inl KeyError"
  by (simp add: checked_one_def attach_script)
     (simp add: scheduler_defs parse_defs script_def)

section \<open>Immediate and delayed checks\<close>

lemma update_checks_now_on_empty_snapshot:
  "connected s \<Longrightarrow> update_timeout s = 0 \<Longrightarrow> \<not> truthy (context_data s)
   \<Longrightarrow> update s = on_update_timeout (drop_parse_signal s)"
  by (simp add: update_def Let_def drop_parse_signal_fields)

text \<open>
  Claim C5 at a change of the buffer after the first check has completed without
  findings. The snapshot is then the empty list, one process has been started and no
  timer is pending. On the change, \<open>update\<close> starts the second process at once: no
  timeout is registered and \<open>update_timeout\<close> stays 0.
\<close>

theorem update_immediate_after_clean_check:
  "map_sum id (\<lambda>s. (context_data s, length (processes s), timeouts s)) checked_clean
     = Inr (PList [], 1, [])
   \<and> map_sum id (\<lambda>s. (update_timeout s, timeouts s, length (processes s), parse_signal s))
        (and_then checked_clean (buffer_changed script))
     = Inr (0, [], 2, 2)"
  by (simp add: checked_clean_def attach_script)
     (simp add: scheduler_defs parse_defs script_def)

text \<open>
  The other way round: when the view is given a buffer while the snapshot of the previous
  one is not empty, the first check of the new buffer is scheduled with a delay.
\<close>

lemma first_check_delayed_with_old_snapshot:
  "map_sum id (\<lambda>s. (timeouts s, length (processes s)))
     (and_then checked_one (on_notify_buffer script))
   = Inr ([(2, 200)], 1)"
  by (simp add: checked_one_state and_then_def)
     (simp add: scheduler_defs attached_one_def script_def)

section \<open>Detaching\<close>

lemma disconnect_gutter_keeps_sources:
  "disconnect_gutter s = Inr s' \<Longrightarrow>
     timeouts s' = timeouts s \<and> io_watches s' = io_watches s
     \<and> update_timeout s' = update_timeout s \<and> parse_signal s' = parse_signal s"
  by (auto simp add: disconnect_gutter_def split: if_splits)

text \<open>
  Claim C6 at a change of the document's language to Python.
  \<^item> With a check scheduled: after the detach the plugin is not connected, and the timeout
    2 is still registered; when it fires, a second process is started and a watch on its
    output is registered.
  \<^item> With a check running: after the detach the watch 1 is still registered; when the
    output is complete, it is parsed and replaces the snapshot.
\<close>

theorem language_change_keeps_timer_and_watch:
  "map_sum id (\<lambda>s. (connected s, update_timeout s, timeouts s)) detached_with_timer
     = Inr (False, 2, [(2, 200)])
   \<and> map_sum id (\<lambda>s. (length (processes s), io_watches s))
        (and_then detached_with_timer (timeout_fires 2))
     = Inr (2, [(3, 2)])
   \<and> map_sum id (\<lambda>s. (connected s, parse_signal s, io_watches s, context_data s))
        detached_in_flight
     = Inr (False, 1, [(1, 1)], PDict [])
   \<and> map_sum id (\<lambda>s. truthy (context_data s))
        (and_then detached_in_flight (output_complete loads_of_samples 1 one_finding))
     = Inr True"
  by (simp add: detached_with_timer_def detached_in_flight_def checked_one_def attach_script)
     (simp add: scheduler_defs parse_defs script_def script_as_python_def)

section \<open>The preview of the erroring span\<close>

lemma get_text_ordered: "a \<le> b \<Longrightarrow> get_text txt a b = take (b - a) (drop a txt)"
  by (simp add: get_text_def Let_def min_def max_def)

lemma get_text_append:
  assumes "a \<le> b" "b \<le> c"
  shows "get_text txt a b @ get_text txt b c = get_text txt a c"
proof -
  have "take (c - a) (drop a txt) = take ((b - a) + (c - b)) (drop a txt)"
    using assms by simp
  also have "\<dots> = take (b - a) (drop a txt) @ take (c - b) (drop (b - a) (drop a txt))"
    by (rule take_add)
  also have "drop (b - a) (drop a txt) = drop b txt"
    using assms by simp
  finally show ?thesis
    using assms by (simp add: get_text_ordered)
qed

lemma line_end_le_length: "p \<le> length txt \<Longrightarrow> p + line_length_at txt p \<le> length txt"
proof -
  assume "p \<le> length txt"
  have "line_length_at txt p \<le> length (drop p txt)"
    unfolding line_length_at_def by (rule length_takeWhile_le)
  then show ?thesis using \<open>p \<le> length txt\<close> by simp
qed

lemma iter_le_length: "get_iter_at_line txt n \<le> length txt"
  by (induction n) (simp_all add: Let_def)

lemma line_end_le_next:
  "get_iter_at_line txt n + line_length_at txt (get_iter_at_line txt n)
     \<le> get_iter_at_line txt (Suc n)"
  using line_end_le_length [OF iter_le_length [of "txt" n]]
  by (simp add: Let_def)

lemma iter_le_Suc: "get_iter_at_line txt n \<le> get_iter_at_line txt (Suc n)"
  using line_end_le_next [of "txt" n] by linarith

lemma iter_mono: "n \<le> m \<Longrightarrow> get_iter_at_line txt n \<le> get_iter_at_line txt m"
  by (rule lift_Suc_mono_le [of "get_iter_at_line txt"]) (rule iter_le_Suc)

lemma offset_ge: "get_iter_at_line txt n \<le> get_iter_at_line_offset txt n c"
  by (simp add: get_iter_at_line_offset_def Let_def)

lemma offset_le_next: "get_iter_at_line_offset txt n c \<le> get_iter_at_line txt (Suc n)"
proof -
  have "get_iter_at_line_offset txt n c
          \<le> get_iter_at_line txt n + line_length_at txt (get_iter_at_line txt n)"
    by (simp add: get_iter_at_line_offset_def Let_def)
  with line_end_le_next [of "txt" n] show ?thesis by linarith
qed

lemma offset_mono_col: "c \<le> d \<Longrightarrow> get_iter_at_line_offset txt n c \<le> get_iter_at_line_offset txt n d"
  by (simp add: get_iter_at_line_offset_def Let_def min_def)

lemma rstrip_nl_no_nl: "NL \<notin> set x \<Longrightarrow> rstrip_nl x = x"
proof -
  assume a: "NL \<notin> set x"
  have "dropWhile (\<lambda>c. c = NL) (rev x) = rev x"
  proof (cases "rev x")
    case Nil
    then show ?thesis by simp
  next
    case (Cons y ys)
    then have "y \<in> set x" by (metis list.set_intros(1) set_rev)
    with a have "y \<noteq> NL" by auto
    with Cons show ?thesis by simp
  qed
  then show ?thesis by (simp add: rstrip_nl_def)
qed

lemma rstrip_nl_snoc: "rstrip_nl (x @ [NL]) = rstrip_nl x"
  by (simp add: rstrip_nl_def)

lemma line_no_nl: "NL \<notin> set (takeWhile (\<lambda>c. c \<noteq> NL) D)"
  by (auto dest: set_takeWhileD)

lemma take_line: "take (length (takeWhile (\<lambda>c. c \<noteq> NL) D)) D = takeWhile (\<lambda>c. c \<noteq> NL) D"
  by (rule takeWhile_eq_take [symmetric])

lemma take_line_nl:
  assumes "length (takeWhile (\<lambda>c. c \<noteq> NL) D) < length D"
  shows "take (Suc (length (takeWhile (\<lambda>c. c \<noteq> NL) D))) D = takeWhile (\<lambda>c. c \<noteq> NL) D @ [NL]"
proof -
  let ?L = "length (takeWhile (\<lambda>c. c \<noteq> NL) D)"
  have "\<not> (D ! ?L \<noteq> NL)" using assms by (rule nth_length_takeWhile)
  then have "D ! ?L = NL" by simp
  moreover have "take (Suc ?L) D = take ?L D @ [D ! ?L]"
    using assms by (rule take_Suc_conv_app_nth)
  ultimately show ?thesis by (simp add: take_line)
qed

lemma single_line_parts:
  assumes k: "k \<le> line_length_at s p" and p: "p \<le> length s"
  shows "get_text s p (p + k)
           @ rstrip_nl (get_text s (p + k)
               (if p + line_length_at s p < length s then Suc (p + line_length_at s p) else length s))
         = takeWhile (\<lambda>c. c \<noteq> NL) (drop p s)"
proof -
  let ?D = "drop p s"
  let ?ln = "takeWhile (\<lambda>c. c \<noteq> NL) ?D"
  let ?L = "length ?ln"
  have L: "line_length_at s p = ?L" by (simp add: line_length_at_def)
  have kL: "k \<le> ?L" using k L by simp
  have pre: "get_text s p (p + k) = take k ?ln"
  proof -
    have "get_text s p (p + k) = take k ?D" by (simp add: get_text_ordered)
    also have "\<dots> = take k (take ?L ?D)" using kL by (simp add: min_def)
    also have "\<dots> = take k ?ln" by (simp only: take_line)
    finally show ?thesis .
  qed
  have no_nl: "NL \<notin> set (drop k ?ln)"
    using line_no_nl [of ?D] by (auto dest: in_set_dropD)
  have suf: "rstrip_nl (get_text s (p + k)
               (if p + ?L < length s then Suc (p + ?L) else length s)) = drop k ?ln"
  proof (cases "p + ?L < length s")
    case True
    then have lt: "?L < length ?D" by simp
    have "get_text s (p + k) (Suc (p + ?L)) = take (Suc ?L - k) (drop k ?D)"
      using kL by (simp add: get_text_ordered add.commute)
    also have "\<dots> = drop k (take (Suc ?L) ?D)" by (simp only: drop_take)
    also have "\<dots> = drop k (?ln @ [NL])" using take_line_nl [OF lt] by simp
    also have "\<dots> = drop k ?ln @ [NL]" using kL by simp
    finally have "get_text s (p + k) (Suc (p + ?L)) = drop k ?ln @ [NL]" .
    then show ?thesis using True no_nl by (simp add: rstrip_nl_snoc rstrip_nl_no_nl)
  next
    case False
    have "?L \<le> length ?D" by (rule length_takeWhile_le)
    with False p have eq: "?L = length ?D" by simp
    then have whole: "?ln = ?D" using take_line [of ?D] by simp
    have "p + k \<le> length s" using kL eq p by simp
    then have "get_text s (p + k) (length s) = drop (p + k) s"
      by (simp add: get_text_ordered)
    also have "\<dots> = drop k ?D" by (simp add: add.commute)
    also have "\<dots> = drop k ?ln" by (simp only: whole)
    finally show ?thesis using False no_nl by (simp add: rstrip_nl_no_nl)
  qed
  show ?thesis by (simp only: L pre suf append_take_drop_id)
qed

lemma get_text_in_line:
  assumes "k \<le> line_length_at s p"
  shows "get_text s p (p + k) = take k (takeWhile (\<lambda>c. c \<noteq> NL) (drop p s))"
proof -
  let ?D = "drop p s"
  let ?L = "length (takeWhile (\<lambda>c. c \<noteq> NL) ?D)"
  have kL: "k \<le> ?L" using assms by (simp add: line_length_at_def)
  have "get_text s p (p + k) = take k ?D" by (simp add: get_text_ordered)
  also have "\<dots> = take k (take ?L ?D)" using kL by (simp add: min_def)
  also have "\<dots> = take k (takeWhile (\<lambda>c. c \<noteq> NL) ?D)" by (simp only: take_line)
  finally show ?thesis .
qed

text \<open>
  Claim C8, as the code has it. For a comment with positions counted from 1 whose start
  does not lie behind its end, the three pieces of \<open>preview_note\<close> are consecutive pieces
  of the buffer: prefix, span and (before its final line feeds are stripped) suffix make
  up the text from the start of the comment's first line to the start of the line after
  its last line. The underlined span is the comment's own span, from its start position
  to its end position, through all the lines between them: it is not clipped to the first
  line. When the comment starts and ends on the same line, the three pieces make up
  exactly that line and the span contains no line feed.
\<close>

theorem preview_note_parts_span:
  assumes "1 \<le> line message"
    and "line message < endLine message
         \<or> (line message = endLine message \<and> column message \<le> endColumn message)"
    and "1 \<le> column message" and "1 \<le> endColumn message"
  shows "case preview_note_parts txt message of (prefix, error, suffix) \<Rightarrow>
           (\<exists>rest. suffix = rstrip_nl rest
              \<and> prefix @ error @ rest
                  = get_text txt (get_iter_at_line txt (nat (line message - 1)))
                      (get_iter_at_line txt (nat (endLine message))))
           \<and> error = get_text txt
                 (get_iter_at_line_offset txt (nat (line message - 1)) (nat (column message - 1)))
                 (get_iter_at_line_offset txt (nat (endLine message - 1)) (nat (endColumn message - 1)))
           \<and> get_iter_at_line_offset txt (nat (line message - 1)) (nat (column message - 1))
               \<le> get_iter_at_line_offset txt (nat (endLine message - 1)) (nat (endColumn message - 1))
           \<and> (line message = endLine message \<longrightarrow>
                 prefix @ error @ suffix = line_at txt (nat (line message - 1))
                 \<and> NL \<notin> set error)"
proof -
  let ?l0 = "nat (line message - 1)" and ?l1 = "nat (endLine message - 1)"
  let ?c0 = "nat (column message - 1)" and ?c1 = "nat (endColumn message - 1)"
  let ?ls = "get_iter_at_line txt ?l0"
  let ?ns = "get_iter_at_line_offset txt ?l0 ?c0"
  let ?ne = "get_iter_at_line_offset txt ?l1 ?c1"
  let ?le = "get_iter_at_line txt (Suc ?l1)"
  have e: "nat (endLine message) = Suc ?l1" using assms(1,2) by auto
  have o1: "?ls \<le> ?ns" by (rule offset_ge)
  have o2: "?ns \<le> ?ne"
  proof (cases "line message < endLine message")
    case True
    then have "Suc ?l0 \<le> ?l1" using assms(1) by auto
    then have "get_iter_at_line txt (Suc ?l0) \<le> get_iter_at_line txt ?l1" by (rule iter_mono)
    moreover have "?ns \<le> get_iter_at_line txt (Suc ?l0)" by (rule offset_le_next)
    moreover have "get_iter_at_line txt ?l1 \<le> ?ne" by (rule offset_ge)
    ultimately show ?thesis by linarith
  next
    case False
    with assms(2) have same: "line message = endLine message" "column message \<le> endColumn message"
      by auto
    then have "?c0 \<le> ?c1" by auto
    then have "get_iter_at_line_offset txt ?l0 ?c0 \<le> get_iter_at_line_offset txt ?l0 ?c1"
      by (rule offset_mono_col)
    with same(1) show ?thesis by simp
  qed
  have o3: "?ne \<le> ?le" by (rule offset_le_next)
  have parts: "preview_note_parts txt message
                 = (get_text txt ?ls ?ns, get_text txt ?ns ?ne, rstrip_nl (get_text txt ?ne ?le))"
    by (simp add: preview_note_parts_def Let_def e)
  have "get_text txt ?ns ?ne @ get_text txt ?ne ?le = get_text txt ?ns ?le"
    using o2 o3 by (rule get_text_append)
  moreover have "get_text txt ?ls ?ns @ get_text txt ?ns ?le = get_text txt ?ls ?le"
    using o1 o2 o3 by (intro get_text_append) linarith+
  ultimately have cover:
    "get_text txt ?ls ?ns @ get_text txt ?ns ?ne @ get_text txt ?ne ?le = get_text txt ?ls ?le"
    by simp
  have single: "get_text txt ?ls ?ns @ get_text txt ?ns ?ne @ rstrip_nl (get_text txt ?ne ?le)
                  = line_at txt ?l0 \<and> NL \<notin> set (get_text txt ?ns ?ne)"
    if same: "line message = endLine message"
  proof -
    let ?L = "line_length_at txt ?ls"
    let ?k = "min ?c1 ?L"
    from same have l: "?l1 = ?l0" by simp
    have ne: "?ne = ?ls + ?k" using l by (simp add: get_iter_at_line_offset_def Let_def)
    have le: "?le = (if ?ls + ?L < length txt then Suc (?ls + ?L) else length txt)"
      using l by (simp add: Let_def)
    have k: "?k \<le> ?L" by simp
    have pe: "get_text txt ?ls ?ns @ get_text txt ?ns ?ne = get_text txt ?ls ?ne"
      using o1 o2 by (rule get_text_append)
    have "get_text txt ?ls (?ls + ?k) @ rstrip_nl (get_text txt (?ls + ?k)
             (if ?ls + ?L < length txt then Suc (?ls + ?L) else length txt))
          = takeWhile (\<lambda>c. c \<noteq> NL) (drop ?ls txt)"
      using k iter_le_length by (rule single_line_parts)
    then have "get_text txt ?ls ?ne @ rstrip_nl (get_text txt ?ne ?le) = line_at txt ?l0"
      by (simp only: ne [symmetric] le [symmetric] line_at_def)
    then have a: "get_text txt ?ls ?ns @ get_text txt ?ns ?ne @ rstrip_nl (get_text txt ?ne ?le)
                   = line_at txt ?l0"
      using pe by (metis append.assoc)
    have "get_text txt ?ls ?ne = take ?k (takeWhile (\<lambda>c. c \<noteq> NL) (drop ?ls txt))"
      unfolding ne using k by (rule get_text_in_line)
    then have "set (get_text txt ?ls ?ne) \<subseteq> set (takeWhile (\<lambda>c. c \<noteq> NL) (drop ?ls txt))"
      by (simp add: set_take_subset)
    moreover have "set (get_text txt ?ns ?ne) \<subseteq> set (get_text txt ?ls ?ne)"
      using pe by (metis Un_upper2 set_append)
    ultimately have "NL \<notin> set (get_text txt ?ns ?ne)"
      using line_no_nl [of "drop ?ls txt"] by blast
    with a show ?thesis by simp
  qed
  show ?thesis
    unfolding parts using cover o2 single by (auto simp add: e)
qed

lemma parts_in_one_line: "preview_note_parts two_lines comment_in_one_line = (''a'', ''b'', [])"
  by code_simp

lemma parts_over_two_lines:
  "preview_note_parts two_lines comment_over_two_lines = (''a'', ''b'' @ [NL] @ ''c'', ''d'')"
  by code_simp

lemma first_of_two_lines: "line_at two_lines 0 = ''ab''"
  by code_simp

theorem preview_note_parts_span_witness:
  "1 \<le> line comment_in_one_line
   \<and> line comment_in_one_line = endLine comment_in_one_line
   \<and> column comment_in_one_line \<le> endColumn comment_in_one_line
   \<and> 1 \<le> column comment_in_one_line \<and> 1 \<le> endColumn comment_in_one_line
   \<and> preview_note_parts two_lines comment_in_one_line = (''a'', ''b'', [])
   \<and> line_at two_lines 0 = ''ab''"
  using preview_note_parts_span [of comment_in_one_line "two_lines"]
  by (simp add: parts_in_one_line first_of_two_lines) (simp add: comment_in_one_line_def)

text \<open>
  Claim C8 as stated fails. In the buffer with the lines \<open>ab\<close> and \<open>cd\<close>, the comment
  from (1, 2) to (2, 2) starts in the line \<open>ab\<close>; the preview is \<open>a\<close>, then the span
  \<open>b\<close>, line feed, \<open>c\<close>, then \<open>d\<close>: two lines, and a span that runs over the end of the
  first one.
\<close>

theorem preview_note_spans_two_lines:
  "preview_note_parts two_lines comment_over_two_lines = (''a'', ''b'' @ [NL] @ ''c'', ''d'')
   \<and> line_at two_lines 0 = ''ab''
   \<and> NL \<in> set (fst (snd (preview_note_parts two_lines comment_over_two_lines)))"
  by (simp add: parts_over_two_lines first_of_two_lines)

end
